theory Spec2Isabelle
  imports Main "HOL-Library.Word"
begin

section \<open>The E2EE section of the security dialog (E2EESection.js)\<close>

text \<open>
  A shallow embedding of the React component \<^verbatim>\<open>E2EESection\<close>: its props and state,
  the static \<^verbatim>\<open>getDerivedStateFromProps\<close>, the constructor, \<^verbatim>\<open>render\<close> and the
  three event handlers \<^verbatim>\<open>_onExpand\<close>, \<^verbatim>\<open>_onExpandKeyPress\<close> and \<^verbatim>\<open>_onToggle\<close>.
\<close>

subsection \<open>JavaScript strings\<close>

text \<open>
  A JavaScript string is a sequence of UTF-16 code units; \<^verbatim>\<open>length\<close> and
  \<^verbatim>\<open>substring\<close> count code units. A string literal of the source (all of them are
  ASCII) is written \<open>js ''...''\<close>.
\<close>

type_synonym code_unit = "16 word"
type_synonym jsstring = "code_unit list"

definition js :: "string \<Rightarrow> jsstring" where
  "js s = map (\<lambda>c. of_nat (of_char c)) s"

text \<open>
  \<^verbatim>\<open>String.prototype.substring(start, end)\<close>: both indices are clamped to
  \<open>[0, length]\<close> and swapped when \<open>start > end\<close>.
\<close>

definition substring :: "jsstring \<Rightarrow> int \<Rightarrow> int \<Rightarrow> jsstring" where
  "substring s start end =
     (let len = int (length s);
          a = min (max start 0) len;
          b = min (max end 0) len;
          from = min a b;
          to = max a b
      in take (nat (to - from)) (drop (nat from) s))"

text \<open>\<^verbatim>\<open>String(b)\<close> for a boolean \<open>b\<close>.\<close>

definition String_bool :: "bool \<Rightarrow> jsstring" where
  "String_bool b = (if b then js ''true'' else js ''false'')"

subsection \<open>Props, state and state updates\<close>

text \<open>
  \<^verbatim>\<open>Props\<close>: the fields \<^verbatim>\<open>_enabled\<close>, \<^verbatim>\<open>_everyoneSupportE2EE\<close> and \<^verbatim>\<open>t\<close>. The
  fourth field, \<^verbatim>\<open>dispatch\<close>, is a function of the redux store; calling it is recorded
  in the component's list of outgoing calls (see \<open>call\<close> below).
\<close>

record Props =
  props_enabled :: bool
  props_everyoneSupportE2EE :: bool
  props_t :: "jsstring \<Rightarrow> jsstring"

record State =
  enabled :: bool
  expand :: bool

text \<open>
  The object handed to \<^verbatim>\<open>setState\<close> or returned by \<^verbatim>\<open>getDerivedStateFromProps\<close>
  names some of the state's fields; React merges it into the state, leaving the fields
  it does not name as they are.
\<close>

record StateUpdate =
  upd_enabled :: "bool option"
  upd_expand :: "bool option"

definition mergeState :: "State \<Rightarrow> StateUpdate \<Rightarrow> State" where
  "mergeState s u =
     \<lparr> enabled = (case upd_enabled u of None \<Rightarrow> enabled s | Some b \<Rightarrow> b),
       expand = (case upd_expand u of None \<Rightarrow> expand s | Some b \<Rightarrow> b) \<rparr>"

text \<open>\<^verbatim>\<open>static getDerivedStateFromProps(props, state)\<close>; \<open>None\<close> is \<^verbatim>\<open>null\<close>.\<close>

definition getDerivedStateFromProps :: "Props \<Rightarrow> State \<Rightarrow> StateUpdate option" where
  "getDerivedStateFromProps p s =
     (if props_enabled p \<noteq> enabled s
      then Some \<lparr> upd_enabled = Some (props_enabled p), upd_expand = None \<rparr>
      else None)"

subsection \<open>The component and its outgoing calls\<close>

text \<open>
  The calls a handler makes to its collaborators, in the order it makes them:
  \<^verbatim>\<open>this.setState(u)\<close>, \<^verbatim>\<open>sendAnalytics(ev)\<close> and \<^verbatim>\<open>this.props.dispatch(a)\<close>.
  The analytics event and the redux action are built by \<^verbatim>\<open>createE2EEEvent\<close> and
  \<^verbatim>\<open>toggleE2EE\<close>, which other modules define; the handler that uses them takes them as
  parameters, so \<open>'ev\<close> and \<open>'act\<close> are whatever they return.
\<close>

datatype ('ev, 'act) call =
    SetState StateUpdate
  | SendAnalytics 'ev
  | Dispatch 'act

text \<open>
  A component: \<^verbatim>\<open>this.props\<close>, \<^verbatim>\<open>this.state\<close> as the last render pass left it, the
  updates handed to \<^verbatim>\<open>setState\<close> since then (React's update queue), and the calls
  made so far.
\<close>

record ('ev, 'act) E2EESection =
  props :: Props
  state :: State
  pending :: "StateUpdate list"
  calls :: "('ev, 'act) call list"

text \<open>
  \<^verbatim>\<open>this.setState(u)\<close>: React queues the update. \<^verbatim>\<open>this.state\<close> stays as it is
  until the next render pass, so a handler that runs before that pass still reads the
  old state.
\<close>

definition setState :: "StateUpdate \<Rightarrow> ('ev, 'act) E2EESection \<Rightarrow> ('ev, 'act) E2EESection" where
  "setState u i = i\<lparr> pending := pending i @ [u], calls := calls i @ [SetState u] \<rparr>"

definition sendAnalytics :: "'ev \<Rightarrow> ('ev, 'act) E2EESection \<Rightarrow> ('ev, 'act) E2EESection" where
  "sendAnalytics ev i = i\<lparr> calls := calls i @ [SendAnalytics ev] \<rparr>"

definition dispatch :: "'act \<Rightarrow> ('ev, 'act) E2EESection \<Rightarrow> ('ev, 'act) E2EESection" where
  "dispatch a i = i\<lparr> calls := calls i @ [Dispatch a] \<rparr>"

text \<open>\<^verbatim>\<open>constructor(props)\<close>.\<close>

definition constructor :: "Props \<Rightarrow> ('ev, 'act) E2EESection" where
  "constructor p =
     \<lparr> props = p, state = \<lparr> enabled = False, expand = False \<rparr>, pending = [],
       calls = [] \<rparr>"

text \<open>
  A render pass, as React runs it for a class component, on the first render and on
  every later one: the queued updates are merged into the state in the order they were
  queued (\<open>processUpdates\<close>); \<^verbatim>\<open>getDerivedStateFromProps\<close> is called with the props and
  that state, and what it returns is merged too (\<open>deriveState\<close>); the result is the new
  \<^verbatim>\<open>this.state\<close>, and \<^verbatim>\<open>render\<close> is called.
\<close>

definition processUpdates :: "('ev, 'act) E2EESection \<Rightarrow> ('ev, 'act) E2EESection" where
  "processUpdates i = i\<lparr> state := foldl mergeState (state i) (pending i), pending := [] \<rparr>"

definition deriveState :: "('ev, 'act) E2EESection \<Rightarrow> ('ev, 'act) E2EESection" where
  "deriveState i =
     (case getDerivedStateFromProps (props i) (state i) of
        None \<Rightarrow> i
      | Some u \<Rightarrow> i\<lparr> state := mergeState (state i) u \<rparr>)"

definition renderPass :: "('ev, 'act) E2EESection \<Rightarrow> ('ev, 'act) E2EESection" where
  "renderPass i = deriveState (processUpdates i)"

subsection \<open>Event handlers\<close>

text \<open>\<^verbatim>\<open>_onExpand()\<close>.\<close>

definition onExpand :: "('ev, 'act) E2EESection \<Rightarrow> ('ev, 'act) E2EESection" where
  "onExpand i = setState \<lparr> upd_enabled = None, upd_expand = Some True \<rparr> i"

text \<open>
  A key event: its \<^verbatim>\<open>key\<close>, and whether \<^verbatim>\<open>preventDefault()\<close> has been called on it.
\<close>

record KeyEvent =
  key :: jsstring
  defaultPrevented :: bool

definition preventDefault :: "KeyEvent \<Rightarrow> KeyEvent" where
  "preventDefault e = e\<lparr> defaultPrevented := True \<rparr>"

text \<open>\<^verbatim>\<open>_onExpandKeyPress(e)\<close>; the event is returned as the handler leaves it.\<close>

definition onExpandKeyPress ::
  "KeyEvent \<Rightarrow> ('ev, 'act) E2EESection \<Rightarrow> KeyEvent \<times> ('ev, 'act) E2EESection" where
  "onExpandKeyPress e i =
     (if key e = js '' '' \<or> key e = js ''Enter''
      then (preventDefault e, onExpand i)
      else (e, i))"

text \<open>
  \<^verbatim>\<open>_onToggle()\<close>; \<open>createE2EEEvent\<close> and \<open>toggleE2EE\<close> are the imported functions.
\<close>

definition onToggle ::
  "(jsstring \<Rightarrow> 'ev) \<Rightarrow> (bool \<Rightarrow> 'act) \<Rightarrow> ('ev, 'act) E2EESection \<Rightarrow> ('ev, 'act) E2EESection" where
  "onToggle createE2EEEvent toggleE2EE i =
     (let newValue = \<not> enabled (state i);
          i1 = setState \<lparr> upd_enabled = Some newValue, upd_expand = None \<rparr> i;
          i2 = sendAnalytics (createE2EEEvent (js ''enabled.'' @ String_bool newValue)) i1
      in dispatch (toggleE2EE newValue) i2)"

subsection \<open>The rendered tree\<close>

text \<open>
  The React element tree that \<^verbatim>\<open>render\<close> returns. A child of an element is a text,
  another element, or the value \<^verbatim>\<open>false\<close> that \<^verbatim>\<open>b && x\<close> yields when \<open>b\<close> is
  false. An attribute is a string, a boolean, a number or one of the component's own
  handlers \<^verbatim>\<open>this._onExpand\<close>, \<^verbatim>\<open>this._onExpandKeyPress\<close> and \<^verbatim>\<open>this._onToggle\<close>,
  which the constructor binds once for every component: a tree names the handlers of
  the component that rendered it.
\<close>

datatype handler = Bound_onExpand | Bound_onExpandKeyPress | Bound_onToggle

datatype attr_value = AStr jsstring | ABool bool | ANum int | AHandler handler

datatype node =
    NFalse
  | NText jsstring
  | NElem string "(string \<times> attr_value) list" "node list"

text \<open>\<^verbatim>\<open>b && x\<close> for a boolean \<open>b\<close>.\<close>

definition js_and :: "bool \<Rightarrow> node \<Rightarrow> node" where
  "js_and b x = (if b then x else NFalse)"

text \<open>
  \<^verbatim>\<open>render()\<close>. It reads \<^verbatim>\<open>this.props\<close>, \<^verbatim>\<open>this.state\<close> and the three bound
  handlers, and calls \<^verbatim>\<open>t\<close> and \<^verbatim>\<open>substring\<close>.
\<close>

definition render :: "('ev, 'act) E2EESection \<Rightarrow> node" where
  "render i =
     (let everyoneSupportE2EE = props_everyoneSupportE2EE (props i);
          t = props_t (props i);
          description = t (js ''dialog.e2eeDescription'')
      in NElem ''div'' [(''id'', AStr (js ''e2ee-section''))]
           [ NElem ''p''
               [ (''aria-live'', AStr (js ''polite'')),
                 (''className'', AStr (js ''description'')),
                 (''id'', AStr (js ''e2ee-section-description'')) ]
               [ js_and (expand (state i)) (NText description),
                 js_and (\<not> expand (state i)) (NText (substring description 0 100)),
                 js_and (\<not> expand (state i))
                   (NElem ''span''
                      [ (''aria-controls'', AStr (js ''e2ee-section-description'')),
                        (''aria-expanded'', ABool (expand (state i))),
                        (''className'', AStr (js ''read-more'')),
                        (''onClick'', AHandler Bound_onExpand),
                        (''onKeyPress'', AHandler Bound_onExpandKeyPress),
                        (''role'', AStr (js ''button'')),
                        (''tabIndex'', ANum 0) ]
                      [ NText (js ''... ''), NText (t (js ''dialog.readMore'')) ]) ],
             js_and (\<not> everyoneSupportE2EE)
               (NElem ''span'' [(''className'', AStr (js ''warning''))]
                  [ NText (t (js ''dialog.e2eeWarning'')) ]),
             NElem ''div'' [(''className'', AStr (js ''control-row''))]
               [ NElem ''label'' [(''htmlFor'', AStr (js ''e2ee-section-switch''))]
                   [ NText (t (js ''dialog.e2eeLabel'')) ],
                 NElem ''Switch''
                   [ (''id'', AStr (js ''e2ee-section-switch'')),
                     (''onValueChange'', AHandler Bound_onToggle),
                     (''value'', ABool (enabled (state i))) ]
                   [] ] ])"

subsection \<open>Reading the rendered tree\<close>

text \<open>
  React renders nothing for a child that is \<^verbatim>\<open>false\<close>: what an element shows is its
  other children, in order.
\<close>

fun attr :: "node \<Rightarrow> string \<Rightarrow> attr_value option" where
  "attr (NElem tg as cs) a = map_of as a"
| "attr n a = None"

fun children_of :: "node \<Rightarrow> node list" where
  "children_of (NElem tg as cs) = cs"
| "children_of n = []"

definition shown :: "node \<Rightarrow> node list" where
  "shown n = filter (\<lambda>c. c \<noteq> NFalse) (children_of n)"

text \<open>All elements of a tree, the root first.\<close>

fun elements :: "node \<Rightarrow> node list" where
  "elements (NElem tg as cs) = NElem tg as cs # concat (map elements cs)"
| "elements n = []"

definition by_id :: "jsstring \<Rightarrow> node \<Rightarrow> node list" where
  "by_id x root = filter (\<lambda>n. attr n ''id'' = Some (AStr x)) (elements root)"

definition by_class :: "jsstring \<Rightarrow> node \<Rightarrow> node list" where
  "by_class x root = filter (\<lambda>n. attr n ''className'' = Some (AStr x)) (elements root)"

text \<open>The description region, the "read more" control, the warning and the switch.\<close>

definition description_region :: "node \<Rightarrow> node list" where
  "description_region root = by_id (js ''e2ee-section-description'') root"

definition read_more :: "node \<Rightarrow> node list" where
  "read_more root = by_class (js ''read-more'') root"

definition warning :: "node \<Rightarrow> node list" where
  "warning root = by_class (js ''warning'') root"

definition switch_value :: "node \<Rightarrow> attr_value option list" where
  "switch_value root = map (\<lambda>n. attr n ''value'') (by_id (js ''e2ee-section-switch'') root)"

subsection \<open>The life of a component\<close>

text \<open>
  What happens to a mounted component: its parent hands it new props, or the user
  clicks the "read more" control (\<^verbatim>\<open>onClick\<close>), presses a key on it
  (\<^verbatim>\<open>onKeyPress\<close>), or flips the switch (\<^verbatim>\<open>onValueChange\<close>). The handler runs,
  and a render pass follows. Events are taken in any order, also a click on a control
  that is no longer rendered.
\<close>

datatype event =
    PropsUpdate Props
  | Click_readMore
  | KeyPress_readMore KeyEvent
  | ValueChange_switch

fun handle ::
  "(jsstring \<Rightarrow> 'ev) \<Rightarrow> (bool \<Rightarrow> 'act) \<Rightarrow> event \<Rightarrow> ('ev, 'act) E2EESection
     \<Rightarrow> ('ev, 'act) E2EESection" where
  "handle createE2EEEvent toggleE2EE (PropsUpdate p) i = i\<lparr> props := p \<rparr>"
| "handle createE2EEEvent toggleE2EE Click_readMore i = onExpand i"
| "handle createE2EEEvent toggleE2EE (KeyPress_readMore e) i = snd (onExpandKeyPress e i)"
| "handle createE2EEEvent toggleE2EE ValueChange_switch i =
     onToggle createE2EEEvent toggleE2EE i"

definition mount :: "Props \<Rightarrow> ('ev, 'act) E2EESection" where
  "mount p = renderPass (constructor p)"

definition step ::
  "(jsstring \<Rightarrow> 'ev) \<Rightarrow> (bool \<Rightarrow> 'act) \<Rightarrow> ('ev, 'act) E2EESection \<Rightarrow> event
     \<Rightarrow> ('ev, 'act) E2EESection" where
  "step createE2EEEvent toggleE2EE i ev = renderPass (handle createE2EEEvent toggleE2EE ev i)"

definition run ::
  "(jsstring \<Rightarrow> 'ev) \<Rightarrow> (bool \<Rightarrow> 'act) \<Rightarrow> ('ev, 'act) E2EESection \<Rightarrow> event list
     \<Rightarrow> ('ev, 'act) E2EESection" where
  "run createE2EEEvent toggleE2EE i evs = foldl (step createE2EEEvent toggleE2EE) i evs"

text \<open>
  The \<open>enabled\<close> value most recently supplied from outside: that of the last props
  update, or of the props the component was mounted with.
\<close>

fun latest_enabled :: "bool \<Rightarrow> event list \<Rightarrow> bool" where
  "latest_enabled b [] = b"
| "latest_enabled b (PropsUpdate p # evs) = latest_enabled (props_enabled p) evs"
| "latest_enabled b (ev # evs) = latest_enabled b evs"

text \<open>
  The switch value as the specification words it: the most recent external value,
  except after a local toggle and before the next external update, where it is the
  toggled value.
\<close>

fun spec_switch_value :: "bool \<Rightarrow> event list \<Rightarrow> bool" where
  "spec_switch_value b [] = b"
| "spec_switch_value b (PropsUpdate p # evs) = spec_switch_value (props_enabled p) evs"
| "spec_switch_value b (ValueChange_switch # evs) = spec_switch_value (\<not> b) evs"
| "spec_switch_value b (ev # evs) = spec_switch_value b evs"

subsection \<open>Sample components\<close>

text \<open>
  Concrete components, with no update queued. The translation
  function hands back its key, six times over for \<open>wordy_props\<close> (a description of 132
  code units); the analytics event is the string it is built from and the redux action
  is the boolean it carries.
\<close>

definition sample_props :: "bool \<Rightarrow> bool \<Rightarrow> Props" where
  "sample_props en everyone =
     \<lparr> props_enabled = en, props_everyoneSupportE2EE = everyone, props_t = (\<lambda>k. k) \<rparr>"

definition wordy_props :: "bool \<Rightarrow> bool \<Rightarrow> Props" where
  "wordy_props en everyone =
     \<lparr> props_enabled = en, props_everyoneSupportE2EE = everyone,
       props_t = (\<lambda>k. concat (replicate 6 k)) \<rparr>"

definition sample :: "Props \<Rightarrow> bool \<Rightarrow> bool \<Rightarrow> (jsstring, bool) E2EESection" where
  "sample p en ex =
     \<lparr> props = p, state = \<lparr> enabled = en, expand = ex \<rparr>, pending = [], calls = [] \<rparr>"

section \<open>Properties\<close>

subsection \<open>Construction\<close>

text \<open>
  C8. Whatever the props, the constructor leaves the local state at
  \<open>{enabled: false, expand: false}\<close>, with no update queued and no call made; the
  state derivation of the first render pass then sets \<open>enabled\<close> to the \<open>_enabled\<close>
  prop and leaves \<open>expand\<close> false.
\<close>

theorem constructor_state:
  "state (constructor p :: ('ev, 'act) E2EESection) = \<lparr> enabled = False, expand = False \<rparr>
   \<and> calls (constructor p :: ('ev, 'act) E2EESection) = []
   \<and> pending (constructor p :: ('ev, 'act) E2EESection) = []
   \<and> state (deriveState (constructor p :: ('ev, 'act) E2EESection))
       = \<lparr> enabled = props_enabled p, expand = False \<rparr>
   \<and> state (mount p :: ('ev, 'act) E2EESection)
       = \<lparr> enabled = props_enabled p, expand = False \<rparr>"
  by (simp add: mount_def renderPass_def processUpdates_def constructor_def deriveState_def
      getDerivedStateFromProps_def mergeState_def)

theorem constructor_state_witness:
  "state (constructor (sample_props True False) :: (jsstring, bool) E2EESection)
     = \<lparr> enabled = False, expand = False \<rparr>
   \<and> state (deriveState (constructor (sample_props True False) :: (jsstring, bool) E2EESection))
     = \<lparr> enabled = True, expand = False \<rparr>
   \<and> state (mount (sample_props True False) :: (jsstring, bool) E2EESection)
     = \<lparr> enabled = True, expand = False \<rparr>"
  using constructor_state [where ?'ev = jsstring and ?'act = bool, of "sample_props True False"]
  by (simp add: sample_props_def)

subsection \<open>State derivation\<close>

lemma deriveState_props: "props (deriveState i) = props i"
  by (simp add: deriveState_def getDerivedStateFromProps_def)

lemma deriveState_calls: "calls (deriveState i) = calls i"
  by (simp add: deriveState_def getDerivedStateFromProps_def)

lemma deriveState_pending: "pending (deriveState i) = pending i"
  by (simp add: deriveState_def getDerivedStateFromProps_def)

lemma deriveState_enabled: "enabled (state (deriveState i)) = props_enabled (props i)"
  by (simp add: deriveState_def getDerivedStateFromProps_def mergeState_def)

lemma deriveState_expand: "expand (state (deriveState i)) = expand (state i)"
  by (simp add: deriveState_def getDerivedStateFromProps_def mergeState_def)

text \<open>
  C2. The state derivation compares the \<open>_enabled\<close> prop with the local \<open>enabled\<close>. If
  they differ it returns an update, and the local \<open>enabled\<close> becomes the prop while
  \<open>expand\<close> stays; if they are equal it returns \<^verbatim>\<open>null\<close> and the component is left as
  it is. Props and outgoing calls are untouched either way.
\<close>

theorem getDerivedStateFromProps_reconciles:
  "(props_enabled (props i) \<noteq> enabled (state i) \<longrightarrow>
      getDerivedStateFromProps (props i) (state i)
        = Some \<lparr> upd_enabled = Some (props_enabled (props i)), upd_expand = None \<rparr>
      \<and> state (deriveState i) = (state i)\<lparr> enabled := props_enabled (props i) \<rparr>)
   \<and> (props_enabled (props i) = enabled (state i) \<longrightarrow>
      getDerivedStateFromProps (props i) (state i) = None \<and> deriveState i = i)
   \<and> props (deriveState i) = props i
   \<and> calls (deriveState i) = calls i"
  by (simp add: deriveState_def getDerivedStateFromProps_def mergeState_def)

theorem getDerivedStateFromProps_reconciles_witness:
  "props_enabled (props (sample (sample_props True True) False True))
     \<noteq> enabled (state (sample (sample_props True True) False True))
   \<and> state (deriveState (sample (sample_props True True) False True))
       = \<lparr> enabled = True, expand = True \<rparr>
   \<and> props_enabled (props (sample (sample_props True True) True False))
       = enabled (state (sample (sample_props True True) True False))
   \<and> deriveState (sample (sample_props True True) True False)
       = sample (sample_props True True) True False"
  using getDerivedStateFromProps_reconciles [of "sample (sample_props True True) False True"]
        getDerivedStateFromProps_reconciles [of "sample (sample_props True True) True False"]
  by (simp add: sample_def sample_props_def)

subsection \<open>Render passes\<close>

lemma renderPass_props: "props (renderPass i) = props i"
  by (simp add: renderPass_def deriveState_props processUpdates_def)

lemma renderPass_calls: "calls (renderPass i) = calls i"
  by (simp add: renderPass_def deriveState_calls processUpdates_def)

lemma renderPass_pending: "pending (renderPass i) = []"
  by (simp add: renderPass_def deriveState_pending processUpdates_def)

lemma renderPass_enabled: "enabled (state (renderPass i)) = props_enabled (props i)"
  by (simp add: renderPass_def deriveState_enabled processUpdates_def)

lemma renderPass_expand:
  "expand (state (renderPass i)) = expand (foldl mergeState (state i) (pending i))"
  by (simp add: renderPass_def deriveState_expand processUpdates_def)

lemma renderPass_state:
  "state (renderPass i) =
     \<lparr> enabled = props_enabled (props i),
       expand = expand (foldl mergeState (state i) (pending i)) \<rparr>"
  using renderPass_enabled [of i] renderPass_expand [of i]
  by (cases "state (renderPass i)") simp

subsection \<open>Handlers\<close>

lemma onExpand_state: "state (onExpand i) = state i"
  by (simp add: onExpand_def setState_def)

lemma onExpand_props: "props (onExpand i) = props i"
  by (simp add: onExpand_def setState_def)

lemma onExpand_pending:
  "pending (onExpand i) = pending i @ [\<lparr> upd_enabled = None, upd_expand = Some True \<rparr>]"
  by (simp add: onExpand_def setState_def)

lemma onExpand_renderPass: "expand (state (renderPass (onExpand i)))"
  by (simp add: renderPass_expand onExpand_state onExpand_pending mergeState_def)

lemma onToggle_state: "state (onToggle createE2EEEvent toggleE2EE i) = state i"
  by (simp add: onToggle_def Let_def setState_def sendAnalytics_def dispatch_def)

lemma onToggle_props: "props (onToggle createE2EEEvent toggleE2EE i) = props i"
  by (simp add: onToggle_def Let_def setState_def sendAnalytics_def dispatch_def)

lemma onToggle_pending:
  "pending (onToggle createE2EEEvent toggleE2EE i)
     = pending i @ [\<lparr> upd_enabled = Some (\<not> enabled (state i)), upd_expand = None \<rparr>]"
  by (simp add: onToggle_def Let_def setState_def sendAnalytics_def dispatch_def)

text \<open>
  C1, as the code has it. A toggle negates \<^verbatim>\<open>this.state.enabled\<close>, asks for the new
  value with \<open>setState\<close> (the state itself and the props stay as they are until the
  render pass), and makes exactly three calls, in this order: the \<open>setState\<close> with the
  new value, one \<open>sendAnalytics\<close> whose event is built from \<open>"enabled."\<close> followed by
  the new value as a string (\<open>"true"\<close> or \<open>"false"\<close>), and one \<open>dispatch\<close> of the
  action built from the new value. The render pass that follows leaves the local
  \<open>enabled\<close> at the \<open>_enabled\<close> prop it finds, whether or not that is the new value,
  and, when no other update is queued, leaves \<open>expand\<close> alone.
\<close>

theorem onToggle_effects:
  "state (onToggle createE2EEEvent toggleE2EE i) = state i
   \<and> props (onToggle createE2EEEvent toggleE2EE i) = props i
   \<and> pending (onToggle createE2EEEvent toggleE2EE i)
     = pending i @ [\<lparr> upd_enabled = Some (\<not> enabled (state i)), upd_expand = None \<rparr>]
   \<and> calls (onToggle createE2EEEvent toggleE2EE i)
     = calls i
       @ [ SetState \<lparr> upd_enabled = Some (\<not> enabled (state i)), upd_expand = None \<rparr>,
           SendAnalytics
             (createE2EEEvent
                (js ''enabled.'' @ (if enabled (state i) then js ''false'' else js ''true''))),
           Dispatch (toggleE2EE (\<not> enabled (state i))) ]
   \<and> enabled (state (renderPass (onToggle createE2EEEvent toggleE2EE i)))
     = props_enabled (props i)
   \<and> enabled (state (renderPass ((onToggle createE2EEEvent toggleE2EE i)\<lparr> props := p \<rparr>)))
     = props_enabled p
   \<and> (pending i = [] \<longrightarrow>
        expand (state (renderPass (onToggle createE2EEEvent toggleE2EE i))) = expand (state i))"
  by (simp add: renderPass_enabled renderPass_expand onToggle_state onToggle_props
      onToggle_pending mergeState_def)
    (simp add: onToggle_def Let_def setState_def sendAnalytics_def dispatch_def String_bool_def)

theorem onToggle_effects_witness:
  "calls (onToggle (\<lambda>s. s) (\<lambda>b. b) (sample (sample_props False True) False False))
     = [ SetState \<lparr> upd_enabled = Some True, upd_expand = None \<rparr>,
         SendAnalytics (js ''enabled.true''),
         Dispatch True ]
   \<and> state (renderPass ((onToggle (\<lambda>s. s) (\<lambda>b. b) (sample (sample_props False True) False False))
        \<lparr> props := sample_props True True \<rparr>))
     = \<lparr> enabled = True, expand = False \<rparr>
   \<and> calls (onToggle (\<lambda>s. s) (\<lambda>b. b) (sample (sample_props True True) True False))
     = [ SetState \<lparr> upd_enabled = Some False, upd_expand = None \<rparr>,
         SendAnalytics (js ''enabled.false''),
         Dispatch False ]
   \<and> pending (sample (sample_props True True) True False) = []
   \<and> state (renderPass (onToggle (\<lambda>s. s) (\<lambda>b. b) (sample (sample_props True True) True False)))
     = \<lparr> enabled = True, expand = False \<rparr>"
  using onToggle_effects [of "\<lambda>s. s" "\<lambda>b. b" "sample (sample_props False True) False False"
          "sample_props True True"]
        onToggle_effects [of "\<lambda>s. s" "\<lambda>b. b" "sample (sample_props True True) True False"
          "sample_props True True"]
  by (simp add: sample_def sample_props_def js_def renderPass_state onToggle_state
      onToggle_props onToggle_pending mergeState_def)

text \<open>
  C1, as the specification words it, fails. A component mounted with
  \<open>_enabled = false\<close> has local \<open>enabled = false\<close>; the toggle leaves
  \<^verbatim>\<open>this.state.enabled\<close> false, and so does the render pass after it, when the props
  have not changed; a second toggle then sends \<open>"enabled.true"\<close> and dispatches
  \<open>true\<close> once more, not the symmetric \<open>false\<close>.
\<close>

theorem onToggle_local_state_counterexample:
  "\<not> enabled (state (mount (sample_props False True) :: (jsstring, bool) E2EESection))
   \<and> \<not> enabled (state (onToggle (\<lambda>s. s) (\<lambda>b. b) (mount (sample_props False True))))
   \<and> \<not> enabled (state (step (\<lambda>s. s) (\<lambda>b. b) (mount (sample_props False True))
            ValueChange_switch))
   \<and> calls (run (\<lambda>s. s) (\<lambda>b. b) (mount (sample_props False True))
        [ValueChange_switch, ValueChange_switch])
     = [ SetState \<lparr> upd_enabled = Some True, upd_expand = None \<rparr>,
         SendAnalytics (js ''enabled.true''),
         Dispatch True,
         SetState \<lparr> upd_enabled = Some True, upd_expand = None \<rparr>,
         SendAnalytics (js ''enabled.true''),
         Dispatch True ]"
  by (simp add: run_def step_def mount_def renderPass_def processUpdates_def deriveState_def
      getDerivedStateFromProps_def mergeState_def constructor_def onToggle_def Let_def
      setState_def sendAnalytics_def dispatch_def String_bool_def sample_props_def js_def)

text \<open>
  C4. A key press on the "read more" control whose key is \<open>"Enter"\<close> or \<open>" "\<close> has its
  default action prevented and runs the expand operation, which queues \<open>expand = true\<close>,
  so that \<open>expand\<close> is true after the render pass; with any other key the event and the
  component are left exactly as they were.
\<close>

theorem onExpandKeyPress_keys:
  "(key e = js '' '' \<or> key e = js ''Enter'' \<longrightarrow>
      fst (onExpandKeyPress e i) = e\<lparr> defaultPrevented := True \<rparr>
      \<and> snd (onExpandKeyPress e i) = onExpand i
      \<and> pending (snd (onExpandKeyPress e i))
          = pending i @ [\<lparr> upd_enabled = None, upd_expand = Some True \<rparr>]
      \<and> expand (state (renderPass (snd (onExpandKeyPress e i)))))
   \<and> (key e \<noteq> js '' '' \<and> key e \<noteq> js ''Enter'' \<longrightarrow>
      onExpandKeyPress e i = (e, i))"
  by (simp add: onExpandKeyPress_def preventDefault_def onExpand_renderPass onExpand_pending)

theorem onExpandKeyPress_keys_witness:
  "defaultPrevented (fst (onExpandKeyPress \<lparr> key = js ''Enter'', defaultPrevented = False \<rparr>
      (sample (sample_props False True) False False)))
   \<and> expand (state (renderPass
        (snd (onExpandKeyPress \<lparr> key = js ''Enter'', defaultPrevented = False \<rparr>
          (sample (sample_props False True) False False)))))
   \<and> defaultPrevented (fst (onExpandKeyPress \<lparr> key = js '' '', defaultPrevented = False \<rparr>
      (sample (sample_props False True) False False)))
   \<and> expand (state (renderPass
        (snd (onExpandKeyPress \<lparr> key = js '' '', defaultPrevented = False \<rparr>
          (sample (sample_props False True) False False)))))
   \<and> key \<lparr> key = js ''Tab'', defaultPrevented = False \<rparr> \<noteq> js '' ''
   \<and> key \<lparr> key = js ''Tab'', defaultPrevented = False \<rparr> \<noteq> js ''Enter''
   \<and> onExpandKeyPress \<lparr> key = js ''Tab'', defaultPrevented = False \<rparr>
         (sample (sample_props False True) False False)
       = (\<lparr> key = js ''Tab'', defaultPrevented = False \<rparr>,
          sample (sample_props False True) False False)"
  using onExpandKeyPress_keys [of "\<lparr> key = js ''Enter'', defaultPrevented = False \<rparr>"
          "sample (sample_props False True) False False"]
        onExpandKeyPress_keys [of "\<lparr> key = js '' '', defaultPrevented = False \<rparr>"
          "sample (sample_props False True) False False"]
        onExpandKeyPress_keys [of "\<lparr> key = js ''Tab'', defaultPrevented = False \<rparr>"
          "sample (sample_props False True) False False"]
  by (simp add: js_def onExpand_renderPass)

subsection \<open>Strings\<close>

lemma of_char_less_256: "(of_char c :: nat) < 256"
  by (metis of_char_mod_256 mod_less_divisor zero_less_numeral)

lemma code_unit_inject: "((of_nat (of_char c) :: 16 word) = of_nat (of_char d)) = (c = d)"
proof
  assume h: "(of_nat (of_char c) :: 16 word) = of_nat (of_char d)"
  have lt: "(of_char x :: nat) mod 65536 = of_char x" for x
    by (rule mod_less) (rule less_trans [OF of_char_less_256], simp)
  have u: "unat (of_nat (of_char x) :: 16 word) = of_char x" for x
    by (simp add: unat_of_nat lt)
  from h have "unat (of_nat (of_char c) :: 16 word) = unat (of_nat (of_char d) :: 16 word)"
    by (rule arg_cong)
  then have "(of_char c :: nat) = of_char d"
    by (simp only: u)
  then show "c = d"
    by (rule of_char_eqI)
next
  assume "c = d"
  then show "(of_nat (of_char c) :: 16 word) = of_nat (of_char d)"
    by simp
qed

lemma js_inject: "(js a = js b) = (a = b)"
  unfolding js_def
  by (rule inj_map_eq_map) (simp add: inj_on_def code_unit_inject)

lemma substring_0_100: "substring s 0 100 = take 100 s"
  by (simp add: substring_def Let_def min_def max_def)

subsection \<open>What render shows\<close>

lemma description_region_shown:
  "map shown (description_region (render i)) =
     [if expand (state i)
      then [NText (props_t (props i) (js ''dialog.e2eeDescription''))]
      else NText (take 100 (props_t (props i) (js ''dialog.e2eeDescription'')))
             # read_more (render i)]"
  by (simp add: description_region_def read_more_def by_id_def by_class_def shown_def
      render_def Let_def js_and_def substring_0_100 js_inject)

lemma description_region_id:
  "map (\<lambda>n. attr n ''id'') (description_region (render i))
     = [Some (AStr (js ''e2ee-section-description''))]"
  by (simp add: description_region_def by_id_def render_def Let_def js_and_def js_inject)

lemma read_more_render:
  "read_more (render i) =
     (if expand (state i) then []
      else [NElem ''span''
              [ (''aria-controls'', AStr (js ''e2ee-section-description'')),
                (''aria-expanded'', ABool False),
                (''className'', AStr (js ''read-more'')),
                (''onClick'', AHandler Bound_onExpand),
                (''onKeyPress'', AHandler Bound_onExpandKeyPress),
                (''role'', AStr (js ''button'')),
                (''tabIndex'', ANum 0) ]
              [ NText (js ''... ''), NText (props_t (props i) (js ''dialog.readMore'')) ]])"
  by (simp add: read_more_def by_class_def render_def Let_def js_and_def js_inject)

lemma warning_render:
  "warning (render i) =
     (if props_everyoneSupportE2EE (props i) then []
      else [NElem ''span'' [(''className'', AStr (js ''warning''))]
              [ NText (props_t (props i) (js ''dialog.e2eeWarning'')) ]])"
  by (simp add: warning_def by_class_def render_def Let_def js_and_def js_inject)

lemma switch_value_render: "switch_value (render i) = [Some (ABool (enabled (state i)))]"
  by (simp add: switch_value_def by_id_def render_def Let_def js_and_def js_inject)

text \<open>
  C3. While \<open>expand\<close> is false, the description region shows the first 100 code units of
  the description and then the "read more" control, which is there exactly once, with a
  click handler, a key-press handler, \<open>role = "button"\<close>, \<open>tabIndex = 0\<close>,
  \<open>aria-expanded\<close> equal to \<open>expand\<close>, and \<open>aria-controls\<close> equal to the id of the
  description region. While \<open>expand\<close> is true, the region shows the whole description
  and nothing else, and the tree holds no "read more" control.
\<close>

theorem description_truncated_or_full:
  "(\<not> expand (state i) \<longrightarrow>
      map shown (description_region (render i))
        = [NText (take 100 (props_t (props i) (js ''dialog.e2eeDescription'')))
             # read_more (render i)]
      \<and> length (read_more (render i)) = 1
      \<and> map (\<lambda>n. attr n ''onClick'') (read_more (render i))
          = [Some (AHandler Bound_onExpand)]
      \<and> map (\<lambda>n. attr n ''onKeyPress'') (read_more (render i))
          = [Some (AHandler Bound_onExpandKeyPress)]
      \<and> map (\<lambda>n. attr n ''role'') (read_more (render i)) = [Some (AStr (js ''button''))]
      \<and> map (\<lambda>n. attr n ''tabIndex'') (read_more (render i)) = [Some (ANum 0)]
      \<and> map (\<lambda>n. attr n ''aria-expanded'') (read_more (render i))
          = [Some (ABool (expand (state i)))]
      \<and> map (\<lambda>n. attr n ''aria-controls'') (read_more (render i))
          = map (\<lambda>n. attr n ''id'') (description_region (render i))
      \<and> map shown (read_more (render i))
          = [[NText (js ''... ''), NText (props_t (props i) (js ''dialog.readMore''))]])
   \<and> (expand (state i) \<longrightarrow>
      map shown (description_region (render i))
        = [[NText (props_t (props i) (js ''dialog.e2eeDescription''))]]
      \<and> read_more (render i) = [])"
  by (simp add: description_region_shown description_region_id read_more_render shown_def)

theorem description_truncated_or_full_witness:
  "\<not> expand (state (sample (wordy_props False True) False False))
   \<and> length (props_t (wordy_props False True) (js ''dialog.e2eeDescription'')) = 132
   \<and> map shown (description_region (render (sample (wordy_props False True) False False)))
       = [NText (js (concat (replicate 4 ''dialog.e2eeDescription'') @ ''dialog.e2eeD''))
            # read_more (render (sample (wordy_props False True) False False))]
   \<and> length (read_more (render (sample (wordy_props False True) False False))) = 1
   \<and> expand (state (sample (wordy_props False True) False True))
   \<and> map shown (description_region (render (sample (wordy_props False True) False True)))
       = [[NText (js (concat (replicate 6 ''dialog.e2eeDescription'')))]]
   \<and> read_more (render (sample (wordy_props False True) False True)) = []"
  using description_truncated_or_full [of "sample (wordy_props False True) False False"]
        description_truncated_or_full [of "sample (wordy_props False True) False True"]
  by (simp add: sample_def wordy_props_def js_def eval_nat_numeral)

text \<open>
  C6. Whatever the local state, the rendered tree holds the warning (the element of
  class \<open>warning\<close>, showing the translated warning text) if and only if the prop
  \<open>_everyoneSupportE2EE\<close> is false.
\<close>

theorem warning_iff_not_everyone:
  "(warning (render i) \<noteq> []) = (\<not> props_everyoneSupportE2EE (props i))
   \<and> (\<not> props_everyoneSupportE2EE (props i) \<longrightarrow>
        map shown (warning (render i))
          = [[NText (props_t (props i) (js ''dialog.e2eeWarning''))]])"
  by (simp add: warning_render shown_def)

theorem warning_iff_not_everyone_witness:
  "\<not> props_everyoneSupportE2EE (props (sample (sample_props True False) True False))
   \<and> map shown (warning (render (sample (sample_props True False) True False)))
       = [[NText (js ''dialog.e2eeWarning'')]]
   \<and> props_everyoneSupportE2EE (props (sample (sample_props True True) True False))
   \<and> warning (render (sample (sample_props True True) True False)) = []"
  using warning_iff_not_everyone [of "sample (sample_props True False) True False"]
        warning_iff_not_everyone [of "sample (sample_props True True) True False"]
  by (simp add: sample_def sample_props_def)

text \<open>
  C9. When the description has at most 100 code units and \<open>expand\<close> is false, the
  description region shows the whole description, and the "read more" control is
  rendered after it all the same; expanding then shows the same text and nothing more.
\<close>

theorem short_description_keeps_read_more:
  assumes "length (props_t (props i) (js ''dialog.e2eeDescription'')) \<le> 100"
    and "\<not> expand (state i)"
  shows "map shown (description_region (render i))
           = [NText (props_t (props i) (js ''dialog.e2eeDescription'')) # read_more (render i)]
         \<and> length (read_more (render i)) = 1
         \<and> map shown (description_region (render (renderPass (onExpand i))))
             = [[NText (props_t (props i) (js ''dialog.e2eeDescription''))]]"
  using assms
  by (simp add: description_region_shown read_more_render onExpand_renderPass
      renderPass_props onExpand_props)

theorem short_description_keeps_read_more_witness:
  "length (props_t (props (sample (sample_props False True) False False))
             (js ''dialog.e2eeDescription'')) \<le> 100
   \<and> \<not> expand (state (sample (sample_props False True) False False))
   \<and> map shown (description_region (render (sample (sample_props False True) False False)))
       = [NText (js ''dialog.e2eeDescription'')
            # read_more (render (sample (sample_props False True) False False))]
   \<and> length (read_more (render (sample (sample_props False True) False False))) = 1
   \<and> map shown (description_region
        (render (renderPass (onExpand (sample (sample_props False True) False False)))))
       = [[NText (js ''dialog.e2eeDescription'')]]"
proof -
  have len: "length (props_t (props (sample (sample_props False True) False False))
                       (js ''dialog.e2eeDescription'')) \<le> 100"
    by (simp add: sample_def sample_props_def js_def)
  have ex: "\<not> expand (state (sample (sample_props False True) False False))"
    by (simp add: sample_def)
  show ?thesis
    using len ex short_description_keeps_read_more [OF len ex]
    by (simp add: sample_def sample_props_def)
qed

subsection \<open>Sequences of events\<close>

lemma handle_expand:
  "expand (state i) \<Longrightarrow> pending i = [] \<Longrightarrow>
   expand (state (renderPass (handle createE2EEEvent toggleE2EE ev i)))"
  by (cases ev)
    (simp_all add: renderPass_expand onExpand_state onExpand_pending onToggle_state
      onToggle_pending onExpandKeyPress_def mergeState_def)

lemma step_expand:
  "expand (state i) \<Longrightarrow> pending i = [] \<Longrightarrow>
   expand (state (step createE2EEEvent toggleE2EE i ev))"
  by (simp add: step_def handle_expand)

lemma step_pending: "pending (step createE2EEEvent toggleE2EE i ev) = []"
  by (simp add: step_def renderPass_pending)

lemma run_expand:
  "expand (state i) \<Longrightarrow> pending i = [] \<Longrightarrow>
   expand (state (run createE2EEEvent toggleE2EE i evs))"
  unfolding run_def
  by (induction evs arbitrary: i) (simp_all add: step_expand step_pending)

lemma handle_props_enabled:
  "props_enabled (props (handle createE2EEEvent toggleE2EE ev i))
     = latest_enabled (props_enabled (props i)) [ev]"
  by (cases ev) (simp_all add: onExpand_props onToggle_props onExpandKeyPress_def)

lemma step_enabled:
  "enabled (state (step createE2EEEvent toggleE2EE i ev))
     = latest_enabled (props_enabled (props i)) [ev]"
  by (simp add: step_def renderPass_enabled handle_props_enabled)

lemma step_props_enabled:
  "props_enabled (props (step createE2EEEvent toggleE2EE i ev))
     = latest_enabled (props_enabled (props i)) [ev]"
  by (simp add: step_def renderPass_props handle_props_enabled)

lemma latest_enabled_Cons:
  "latest_enabled b (ev # evs) = latest_enabled (latest_enabled b [ev]) evs"
  by (cases ev) simp_all

lemma run_props_enabled:
  "props_enabled (props (run createE2EEEvent toggleE2EE i evs))
     = latest_enabled (props_enabled (props i)) evs"
  unfolding run_def
proof (induction evs arbitrary: i)
  case Nil
  show ?case by simp
next
  case (Cons ev evs)
  show ?case
    by (simp add: Cons.IH step_props_enabled latest_enabled_Cons [of _ ev evs])
qed

lemma run_enabled:
  "enabled (state i) = props_enabled (props i) \<Longrightarrow>
   enabled (state (run createE2EEEvent toggleE2EE i evs))
     = props_enabled (props (run createE2EEEvent toggleE2EE i evs))"
  unfolding run_def
proof (induction evs arbitrary: i)
  case Nil
  then show ?case by simp
next
  case (Cons ev evs)
  have "enabled (state (step createE2EEEvent toggleE2EE i ev))
          = props_enabled (props (step createE2EEEvent toggleE2EE i ev))"
    by (simp add: step_enabled step_props_enabled)
  then show ?case
    by (simp add: Cons.IH)
qed

lemma mount_enabled: "enabled (state (mount p)) = props_enabled p"
  by (simp add: mount_def renderPass_enabled constructor_def)

lemma mount_props: "props (mount p) = p"
  by (simp add: mount_def renderPass_props constructor_def)

lemma onExpand_funpow:
  "state ((onExpand ^^ k) i) = state i
   \<and> props ((onExpand ^^ k) i) = props i
   \<and> pending ((onExpand ^^ k) i)
       = pending i @ replicate k \<lparr> upd_enabled = None, upd_expand = Some True \<rparr>"
  by (induction k)
    (simp_all add: onExpand_state onExpand_props onExpand_pending replicate_append_same)

lemma expand_foldl_replicate:
  "expand (foldl mergeState s
     (us @ replicate (Suc k) \<lparr> upd_enabled = None, upd_expand = Some True \<rparr>))"
proof -
  have e: "us @ replicate (Suc k) \<lparr> upd_enabled = None, upd_expand = Some True \<rparr>
             = (us @ replicate k \<lparr> upd_enabled = None, upd_expand = Some True \<rparr>)
                 @ [\<lparr> upd_enabled = None, upd_expand = Some True \<rparr>]"
    by (simp add: replicate_append_same)
  show ?thesis
    unfolding e by (simp add: mergeState_def)
qed

lemma step_click_state:
  "state (step createE2EEEvent toggleE2EE i Click_readMore)
     = \<lparr> enabled = props_enabled (props i), expand = True \<rparr>"
  by (simp add: step_def renderPass_state onExpand_props onExpand_state onExpand_pending
      mergeState_def)

lemma run_clicks_props:
  "props (run createE2EEEvent toggleE2EE i (replicate n Click_readMore)) = props i"
  unfolding run_def
  by (induction n arbitrary: i) (simp_all add: step_def renderPass_props onExpand_props)

lemma run_clicks_state:
  "state (run createE2EEEvent toggleE2EE i (replicate (Suc n) Click_readMore))
     = state (step createE2EEEvent toggleE2EE i Click_readMore)"
proof -
  have "run createE2EEEvent toggleE2EE i (replicate (Suc n) Click_readMore)
          = step createE2EEEvent toggleE2EE
              (run createE2EEEvent toggleE2EE i (replicate n Click_readMore)) Click_readMore"
    unfolding run_def
    by (simp only: replicate_Suc replicate_append_same [symmetric] foldl_append foldl.simps)
  then show ?thesis
    by (simp only: step_click_state run_clicks_props)
qed

text \<open>
  C7. The \<open>expand\<close> flag is false in a new component; the expand operation sets it, as
  the render pass after it shows; running the expand operation again, any number of
  times, with or without render passes in between, changes neither the state nor what
  is rendered; and neither a toggle, nor the
  state derivation, nor any sequence of events and render passes takes a true \<open>expand\<close>
  back to false.
\<close>

theorem expand_monotone:
  fixes i :: "('ev, 'act) E2EESection"
  shows "\<not> expand (state (constructor p :: ('ev, 'act) E2EESection))
   \<and> expand (state (renderPass (onExpand i)))
   \<and> state (renderPass ((onExpand ^^ Suc n) i)) = state (renderPass (onExpand i))
   \<and> render (renderPass ((onExpand ^^ Suc n) i)) = render (renderPass (onExpand i))
   \<and> state (run createE2EEEvent toggleE2EE i (replicate (Suc n) Click_readMore))
       = state (step createE2EEEvent toggleE2EE i Click_readMore)
   \<and> expand (state (renderPass (onToggle createE2EEEvent toggleE2EE i)))
       = expand (state (renderPass i))
   \<and> expand (state (deriveState i)) = expand (state i)
   \<and> (expand (state i) \<and> pending i = [] \<longrightarrow>
        expand (state (run createE2EEEvent toggleE2EE i evs)))"
proof -
  have st: "state (renderPass ((onExpand ^^ Suc n) i)) = state (renderPass (onExpand i))"
    using expand_foldl_replicate [of "state i" "pending i" n]
      expand_foldl_replicate [of "state i" "pending i" 0]
    by (simp only: renderPass_state onExpand_funpow)
      (simp add: onExpand_props onExpand_state onExpand_pending)
  have "render (renderPass ((onExpand ^^ Suc n) i)) = render (renderPass (onExpand i))"
    using st onExpand_funpow [of "Suc n" i]
    by (simp add: render_def renderPass_props onExpand_props)
  moreover have "expand (state (renderPass (onToggle createE2EEEvent toggleE2EE i)))
                   = expand (state (renderPass i))"
    by (simp add: renderPass_expand onToggle_state onToggle_pending mergeState_def)
  ultimately show ?thesis
    using st
    by (simp add: constructor_def onExpand_renderPass deriveState_expand run_expand
        run_clicks_state del: replicate_Suc replicate.simps)
qed

theorem expand_monotone_witness:
  "expand (state (renderPass (onExpand (sample (sample_props False True) False False))))
   \<and> pending (renderPass (onExpand (sample (sample_props False True) False False))) = []
   \<and> expand (state (run (\<lambda>s. s) (\<lambda>b. b)
        (renderPass (onExpand (sample (sample_props False True) False False)))
        [ValueChange_switch, PropsUpdate (sample_props True False), Click_readMore,
         KeyPress_readMore \<lparr> key = js ''Tab'', defaultPrevented = False \<rparr>,
         ValueChange_switch]))
   \<and> state (renderPass ((onExpand ^^ 3) (sample (sample_props False True) False False)))
       = \<lparr> enabled = False, expand = True \<rparr>"
  using expand_monotone [of "sample_props False True"
          "sample (sample_props False True) False False" 2 "\<lambda>s. s" "\<lambda>b. b"
          "[]"]
        expand_monotone [of "sample_props False True"
          "renderPass (onExpand (sample (sample_props False True) False False))" 0
          "\<lambda>s. s" "\<lambda>b. b"
          "[ValueChange_switch, PropsUpdate (sample_props True False), Click_readMore,
            KeyPress_readMore \<lparr> key = js ''Tab'', defaultPrevented = False \<rparr>,
            ValueChange_switch]"]
  by (simp add: onExpand_renderPass renderPass_pending renderPass_state onExpand_props
      onExpand_state onExpand_pending sample_def sample_props_def mergeState_def
      eval_nat_numeral)

text \<open>
  C5, as the code has it. After every render pass, whatever events came before, the
  switch shows the local \<open>enabled\<close>, and that is the \<open>enabled\<close> value most recently
  supplied from outside. A toggle asks for the negated value, but the state derivation
  of the render pass that follows puts the external value back: the toggled value is
  shown only once the external value has become equal to it.
\<close>

theorem switch_shows_latest_external:
  "switch_value (render i) = [Some (ABool (enabled (state i)))]
   \<and> switch_value (render (run createE2EEEvent toggleE2EE (mount p) evs))
       = [Some (ABool (latest_enabled (props_enabled p) evs))]
   \<and> pending (onToggle createE2EEEvent toggleE2EE i)
       = pending i @ [\<lparr> upd_enabled = Some (\<not> enabled (state i)), upd_expand = None \<rparr>]
   \<and> switch_value (render (step createE2EEEvent toggleE2EE i ValueChange_switch))
       = [Some (ABool (props_enabled (props i)))]"
proof -
  have "enabled (state (run createE2EEEvent toggleE2EE (mount p) evs))
          = latest_enabled (props_enabled p) evs"
    using run_enabled [of "mount p" createE2EEEvent toggleE2EE evs]
    by (simp add: mount_enabled mount_props run_props_enabled)
  then show ?thesis
    by (simp add: switch_value_render onToggle_pending step_enabled)
qed

theorem switch_shows_latest_external_witness:
  "switch_value (render (run (\<lambda>s. s) (\<lambda>b. b) (mount (sample_props False True))
      [ValueChange_switch, PropsUpdate (sample_props True True), Click_readMore]))
     = [Some (ABool True)]
   \<and> pending (onToggle (\<lambda>s. s) (\<lambda>b. b) (sample (sample_props False True) False False))
     = [\<lparr> upd_enabled = Some True, upd_expand = None \<rparr>]
   \<and> switch_value (render (step (\<lambda>s. s) (\<lambda>b. b)
        (sample (sample_props False True) False False) ValueChange_switch))
     = [Some (ABool False)]"
  using switch_shows_latest_external [of "sample (sample_props False True) False False"
          "\<lambda>s. s" "\<lambda>b. b" "sample_props False True"
          "[ValueChange_switch, PropsUpdate (sample_props True True), Click_readMore]"]
  by (simp add: sample_def sample_props_def)

text \<open>
  C5, as the specification words it, fails: mounted with \<open>_enabled = false\<close>, after one
  toggle and no props update the switch shows \<open>false\<close>, not the toggled value.
\<close>

theorem switch_after_toggle_counterexample:
  "switch_value (render (run (\<lambda>s. s) (\<lambda>b. b) (mount (sample_props False True))
      [ValueChange_switch]))
     = [Some (ABool False)]
   \<and> spec_switch_value (props_enabled (sample_props False True)) [ValueChange_switch] = True
   \<and> switch_value (render (run (\<lambda>s. s) (\<lambda>b. b) (mount (sample_props False True))
      [ValueChange_switch]))
     \<noteq> [Some (ABool (spec_switch_value (props_enabled (sample_props False True))
                       [ValueChange_switch]))]"
  by (simp add: switch_value_render run_def step_enabled mount_props sample_props_def)

end
